theory Spec2Isabelle
  imports Main
begin

section \<open>String primitives used by the chat handler\<close>

text \<open>
  Transcripts and phrases are strings of bytes, the UTF-8 encoding of the JavaScript
  strings. \<open>str_includes\<close> is \<open>String.prototype.includes\<close>: the second string occurs as
  a contiguous substring of the first.

  \<open>String.prototype.toLowerCase\<close> belongs to the JavaScript runtime and follows the
  Unicode case mapping. It is not defined here: every definition of the handler that
  lower-cases a string takes the function as its parameter \<open>lc\<close>, and what is proved for
  all \<open>lc\<close> holds for the runtime's function.
\<close>

fun startsWith :: "string \<Rightarrow> string \<Rightarrow> bool" where
  "startsWith s [] = True"
| "startsWith [] (p # ps) = False"
| "startsWith (c # cs) (p # ps) = (c = p \<and> startsWith cs ps)"

fun str_includes :: "string \<Rightarrow> string \<Rightarrow> bool" where
  "str_includes [] p = (p = [])"
| "str_includes (c # cs) p = (startsWith (c # cs) p \<or> str_includes cs p)"

text \<open>\<open>x || d\<close> on an optional string: \<open>undefined\<close>, \<open>null\<close> and the empty string are falsy.\<close>

definition or_default :: "string option \<Rightarrow> string \<Rightarrow> string" where
  "or_default x d = (case x of None \<Rightarrow> d | Some v \<Rightarrow> (if v = [] then d else v))"

text \<open>\<open>xs.slice(-n)\<close>: the last \<open>n\<close> elements, all of them when there are fewer.\<close>

definition slice_last :: "nat \<Rightarrow> 'a list \<Rightarrow> 'a list" where
  "slice_last n xs = drop (length xs - n) xs"


section \<open>Data model\<close>

datatype phase = Greeting | Discovery | Pitching | Positioning | Closing | Completed

datatype session_outcome = Sale_made | No_sale | Abandoned

text \<open>The \<open>SalesSession\<close> row; \<open>outcome = None\<close> and \<open>endedAt = None\<close> are the null columns.\<close>

record sales_session =
  outcome :: "session_outcome option"
  saleConfirmed :: bool
  db_currentPhase :: phase
  endedAt :: "nat option"

text \<open>A \<open>Message\<close> row; the table is kept as a list in order of creation.\<close>

record message =
  role :: string
  content :: string
  msg_phase :: phase

type_synonym chat_msg = "string \<times> string"

text \<open>Events that reach the client over its socket.\<close>

datatype client_event =
    Audio string
  | Assistant_transcript string
  | User_transcript string
  | Sale_made_event string string
  | Sale_denied_event string string
  | Error_event string

text \<open>
  \<open>AnalysisResult\<close> of \<open>saleAnalyzer.ts\<close>. The confidence is the number of the JSON
  answer; it is compared with the thresholds 60 and 80 only.
\<close>

record analysis_result =
  analysis_outcome :: string
  confidence :: int
  reasoning :: string
  keyPhrase :: "string option"
  popupHeadline :: "string option"
  popupMessage :: "string option"

text \<open>
  What the chat-completion call gives back: the call throws (\<open>CallFailed\<close>), the content
  is not JSON or parses to \<open>null\<close>, so that reading a field throws (\<open>Unparseable\<close>), or it
  parses to an object whose fields may be absent.
\<close>

record json_result =
  json_outcome :: "string option"
  json_confidence :: "int option"
  json_reasoning :: "string option"
  json_keyPhrase :: "string option"
  json_popupHeadline :: "string option"
  json_popupMessage :: "string option"

datatype api_response = CallFailed | Unparseable | Parsed json_result

text \<open>
  A request to the classification service, identified by the window of messages that is
  rendered into its prompt (and the difficulty in user-sells mode).
\<close>

datatype api_call =
    Seller_analysis "chat_msg list"
  | Customer_analysis string "chat_msg list"

text \<open>
  The state of one connection: the closure variables of \<open>handleChatConnection\<close>, the
  configuration read at connection time, the session's rows in the store, whether the
  client socket is open, and two traces: what was delivered to the client and which
  classification requests were made. Reads and writes of the store are taken to
  succeed, and each handler runs to its end before the next event is handled.
\<close>

record connection =
  salesMode :: string
  difficulty :: string
  triggerPhrase :: "string option"
  currentPhase :: phase
  isWaitingForUserTranscript :: bool
  bufferedAssistantTranscript :: "string list"
  clientOpen :: bool
  session :: sales_session
  messages :: "message list"
  sent :: "client_event list"
  classifierCalls :: "api_call list"

text \<open>
  The events of the upstream engine that the \<open>message\<close> handler acts on once the session
  is ready (the readiness handshake, which sends \<open>ready\<close> and requests the greeting, is
  not part of the model), and the client's \<open>close\<close>.
\<close>

datatype upstream_event =
    SpeechStarted
  | AudioDelta string
  | AudioTranscriptDelta string
  | AudioTranscriptDone string
  | InputTranscriptionCompleted string
  | UpstreamError "string option"

datatype event = Upstream upstream_event | ClientClose


section \<open>The classifier client (\<open>saleAnalyzer.ts\<close>)\<close>

text \<open>The \<open>try\<close>/\<open>catch\<close> body shared by both detection functions.\<close>

definition completion_result :: "api_response \<Rightarrow> analysis_result" where
  "completion_result r =
     (case r of
        Parsed j \<Rightarrow>
          \<lparr>analysis_outcome = or_default (json_outcome j) ''UNDECIDED'',
           confidence = (case json_confidence j of None \<Rightarrow> 0 | Some c \<Rightarrow> c),
           reasoning = or_default (json_reasoning j) ''Unable to analyze'',
           keyPhrase = json_keyPhrase j,
           popupHeadline = json_popupHeadline j,
           popupMessage = json_popupMessage j\<rparr>
      | _ \<Rightarrow>
          \<lparr>analysis_outcome = ''UNDECIDED'',
           confidence = 0,
           reasoning = ''Analysis error - defaulting to undecided'',
           keyPhrase = None,
           popupHeadline = None,
           popupMessage = None\<rparr>)"

definition analyzeWithAI :: "chat_msg list \<Rightarrow> api_response \<Rightarrow> api_call \<times> analysis_result" where
  "analyzeWithAI msgs r = (Seller_analysis (slice_last 10 msgs), completion_result r)"

definition detectSaleOutcome :: "chat_msg list \<Rightarrow> api_response \<Rightarrow> api_call \<times> analysis_result" where
  "detectSaleOutcome conversationHistory r = analyzeWithAI conversationHistory r"

definition detectUserSaleOutcome ::
  "chat_msg list \<Rightarrow> string \<Rightarrow> api_response \<Rightarrow> api_call \<times> analysis_result" where
  "detectUserSaleOutcome conversationHistory diff r =
     (Customer_analysis diff (slice_last 12 conversationHistory), completion_result r)"


section \<open>The chat handler (\<open>chatHandler.ts\<close>)\<close>

definition exitPhrases :: "string list" where
  "exitPhrases = [''bye'', ''goodbye'', ''i'm done'', ''end session'', ''not interested'',
     ''no thanks'', ''i don't want'', ''forget it'', ''never mind'', ''i'll pass'']"

definition buyPhrases :: "string list" where
  "buyPhrases = [''i'll take it'', ''i'll buy'', ''sold'', ''deal'', ''yes'', ''sign me up'',
     ''i want it'', ''i'm in'']"

definition giveUpPhrases :: "string list" where
  "giveUpPhrases = [''bye'', ''goodbye'', ''i give up'', ''i'm done'', ''forget it'',
     ''never mind'', ''i quit'', ''end session'']"

definition isExitSignal :: "(string \<Rightarrow> string) \<Rightarrow> string \<Rightarrow> bool" where
  "isExitSignal lc transcript = list_ex (str_includes (lc transcript)) exitPhrases"

definition isBuySignal :: "(string \<Rightarrow> string) \<Rightarrow> string \<Rightarrow> bool" where
  "isBuySignal lc transcript = list_ex (str_includes (lc transcript)) buyPhrases"

definition isGivingUp :: "(string \<Rightarrow> string) \<Rightarrow> string \<Rightarrow> bool" where
  "isGivingUp lc transcript = list_ex (str_includes (lc transcript)) giveUpPhrases"

text \<open>\<open>config?.triggerPhrase?.toLowerCase() || 'sell me a pen'\<close>\<close>

definition effectiveTrigger :: "(string \<Rightarrow> string) \<Rightarrow> connection \<Rightarrow> string" where
  "effectiveTrigger lc s = or_default (map_option lc (triggerPhrase s)) ''sell me a pen''"

text \<open>\<open>clientWs.send\<close>: a socket that is not open delivers nothing.\<close>

definition clientSend :: "client_event \<Rightarrow> connection \<Rightarrow> connection" where
  "clientSend e s = (if clientOpen s then s\<lparr>sent := sent s @ [e]\<rparr> else s)"

definition logMessage :: "string \<Rightarrow> string \<Rightarrow> phase \<Rightarrow> connection \<Rightarrow> connection" where
  "logMessage r c p s = s\<lparr>messages := messages s @ [\<lparr>role = r, content = c, msg_phase = p\<rparr>]\<rparr>"

text \<open>Assignment to \<open>currentPhase\<close> followed by the update of the row's \<open>currentPhase\<close>.\<close>

definition updatePhase :: "phase \<Rightarrow> connection \<Rightarrow> connection" where
  "updatePhase p s = s\<lparr>currentPhase := p, session := (session s)\<lparr>db_currentPhase := p\<rparr>\<rparr>"

text \<open>
  The update that records an outcome. It writes the row only: the closure variable
  \<open>currentPhase\<close> keeps its value.
\<close>

definition commitOutcome :: "session_outcome \<Rightarrow> bool \<Rightarrow> nat \<Rightarrow> connection \<Rightarrow> connection" where
  "commitOutcome oc sc now s =
     s\<lparr>session := (session s)\<lparr>outcome := Some oc, saleConfirmed := sc,
                               db_currentPhase := Completed, endedAt := Some now\<rparr>\<rparr>"

text \<open>\<open>findMany({ orderBy: { createdAt: 'asc' }, take: 15 })\<close> mapped to role and content.\<close>

definition conversationHistory :: "connection \<Rightarrow> chat_msg list" where
  "conversationHistory s = map (\<lambda>m. (role m, content m)) (take 15 (messages s))"

definition userMessageCount :: "connection \<Rightarrow> nat" where
  "userMessageCount s = length (filter (\<lambda>m. role m = ''user'') (messages s))"

definition recordCall :: "api_call \<Rightarrow> connection \<Rightarrow> connection" where
  "recordCall c s = s\<lparr>classifierCalls := classifierCalls s @ [c]\<rparr>"

text \<open>The commit block of the AI-sells branch, after the analysis has come back.\<close>

definition aiSellsDecision :: "analysis_result \<Rightarrow> bool \<Rightarrow> nat \<Rightarrow> connection \<Rightarrow> connection" where
  "aiSellsDecision a exitSig now s =
     (let confidenceThreshold = (if exitSig then 60 else 80) in
      if confidence a \<ge> confidenceThreshold then
        (if analysis_outcome a = ''SALE_CONFIRMED'' then
           clientSend (Sale_made_event (or_default (popupHeadline a) ''SALE MADE!'')
                         (or_default (popupMessage a) ''Congratulations! You closed the deal!''))
             (commitOutcome Sale_made True now s)
         else if analysis_outcome a = ''SALE_DENIED'' then
           clientSend (Sale_denied_event (or_default (popupHeadline a) ''NO SALE'')
                         (or_default (popupMessage a) ''The customer declined. Better luck next time!''))
             (commitOutcome No_sale False now s)
         else s)
      else s)"

text \<open>The commit block of the user-sells branch (on a finished assistant transcript).\<close>

definition userSellsDecision :: "analysis_result \<Rightarrow> nat \<Rightarrow> connection \<Rightarrow> connection" where
  "userSellsDecision a now s =
     (if confidence a \<ge> 80 then
        (if analysis_outcome a = ''SALE_CONFIRMED'' then
           clientSend (Sale_made_event (or_default (popupHeadline a) ''YOU MADE THE SALE!'')
                         (or_default (popupMessage a) ''Great job! The customer bought the pen!''))
             (commitOutcome Sale_made True now s)
         else if analysis_outcome a = ''SALE_DENIED'' then
           clientSend (Sale_denied_event (or_default (popupHeadline a) ''NO SALE'')
                         (or_default (popupMessage a) ''The customer said no. Try a different approach!''))
             (commitOutcome No_sale False now s)
         else s)
      else s)"

text \<open>Trigger phrase and the count-driven progression of the AI-sells branch.\<close>

definition aiSellsPhase :: "(string \<Rightarrow> string) \<Rightarrow> string \<Rightarrow> connection \<Rightarrow> connection" where
  "aiSellsPhase lc transcript s =
     (let s1 = (if str_includes (lc transcript) (effectiveTrigger lc s)
                then updatePhase Discovery s else s);
          messageCount = userMessageCount s1
      in if currentPhase s1 = Discovery \<and> messageCount \<ge> 3 then updatePhase Positioning s1
         else if currentPhase s1 = Positioning \<and> messageCount \<ge> 5 then updatePhase Closing s1
         else s1)"

definition aiSellsTurn ::
  "(string \<Rightarrow> string) \<Rightarrow> api_response \<Rightarrow> nat \<Rightarrow> string \<Rightarrow> connection \<Rightarrow> connection" where
  "aiSellsTurn lc r now transcript s =
     (let s2 = aiSellsPhase lc transcript s;
          exitSig = isExitSignal lc transcript;
          buySig = isBuySignal lc transcript
      in if currentPhase s2 = Closing \<or> exitSig \<or> buySig \<or> currentPhase s2 \<noteq> Greeting then
           (case detectSaleOutcome (conversationHistory s2) r of
              (call, analysis) \<Rightarrow> aiSellsDecision analysis exitSig now (recordCall call s2))
         else s2)"

definition userSellsTurn ::
  "(string \<Rightarrow> string) \<Rightarrow> nat \<Rightarrow> string \<Rightarrow> connection \<Rightarrow> connection" where
  "userSellsTurn lc now transcript s =
     (let s1 = (if currentPhase s = Greeting then updatePhase Pitching s else s)
      in if isGivingUp lc transcript then
           clientSend (Sale_denied_event ''SESSION ENDED''
                         ''You ended the session without making a sale. Keep practicing!'')
             (commitOutcome No_sale False now s1)
         else s1)"

definition flushBuffered :: "connection \<Rightarrow> connection" where
  "flushBuffered s =
     (if length (bufferedAssistantTranscript s) > 0 then
        (clientSend (Assistant_transcript (concat (bufferedAssistantTranscript s))) s)
          \<lparr>bufferedAssistantTranscript := []\<rparr>
      else s)"

text \<open>\<open>case 'conversation.item.input_audio_transcription.completed'\<close>\<close>

definition onUserTranscript ::
  "(string \<Rightarrow> string) \<Rightarrow> api_response \<Rightarrow> nat \<Rightarrow> string \<Rightarrow> connection \<Rightarrow> connection" where
  "onUserTranscript lc r now transcript s =
     (if clientOpen s then
        (let s1 = clientSend (User_transcript transcript) s;
             s2 = logMessage ''user'' transcript (currentPhase s1) s1;
             s3 = (if salesMode s2 = ''ai_sells'' then aiSellsTurn lc r now transcript s2
                   else userSellsTurn lc now transcript s2)
         in flushBuffered s3)
      else s)
     \<lparr>isWaitingForUserTranscript := False\<rparr>"

text \<open>
  \<open>case 'response.audio_transcript.done'\<close>; an empty transcript is falsy. (The AI-sells
  branch lower-cases the transcript for a test whose body is empty.)
\<close>

definition onTranscriptDone :: "api_response \<Rightarrow> nat \<Rightarrow> string \<Rightarrow> connection \<Rightarrow> connection" where
  "onTranscriptDone r now transcript s =
     (if transcript \<noteq> [] then
        (let s1 = logMessage ''assistant'' transcript (currentPhase s) s
         in if salesMode s1 = ''user_sells'' \<and> currentPhase s1 \<noteq> Greeting then
              (case detectUserSaleOutcome (conversationHistory s1) (difficulty s1) r of
                 (call, analysis) \<Rightarrow> userSellsDecision analysis now (recordCall call s1))
            else s1)
      else s)"

text \<open>
  The \<open>message\<close> handler of the upstream socket. \<open>lc\<close> is the runtime's
  \<open>toLowerCase\<close>, \<open>r\<close> is what the classification service answers should the handler
  call it, \<open>now\<close> the clock read by \<open>new Date()\<close>.
\<close>

fun handleUpstream ::
  "(string \<Rightarrow> string) \<Rightarrow> api_response \<Rightarrow> nat \<Rightarrow> connection \<Rightarrow> upstream_event \<Rightarrow> connection" where
  "handleUpstream lc r now s SpeechStarted =
     s\<lparr>isWaitingForUserTranscript := True, bufferedAssistantTranscript := []\<rparr>"
| "handleUpstream lc r now s (AudioDelta d) =
     (if clientOpen s then clientSend (Audio d) s else s)"
| "handleUpstream lc r now s (AudioTranscriptDelta d) =
     (if isWaitingForUserTranscript s then
        s\<lparr>bufferedAssistantTranscript := bufferedAssistantTranscript s @ [d]\<rparr>
      else if clientOpen s then clientSend (Assistant_transcript d) s
      else s)"
| "handleUpstream lc r now s (AudioTranscriptDone t) = onTranscriptDone r now t s"
| "handleUpstream lc r now s (InputTranscriptionCompleted t) = onUserTranscript lc r now t s"
| "handleUpstream lc r now s (UpstreamError m) =
     (if clientOpen s then clientSend (Error_event (or_default m ''Unknown error'')) s else s)"

text \<open>
  The client's \<open>close\<close> handler: the socket is closed, and the session is marked abandoned
  if it has no \<open>endedAt\<close> yet.
\<close>

definition onClientClose :: "nat \<Rightarrow> connection \<Rightarrow> connection" where
  "onClientClose now s =
     (let s1 = s\<lparr>clientOpen := False\<rparr>
      in if endedAt (session s1) = None then
           s1\<lparr>session := (session s1)\<lparr>outcome := Some Abandoned, endedAt := Some now\<rparr>\<rparr>
         else s1)"

fun step ::
  "(string \<Rightarrow> string) \<Rightarrow> connection \<Rightarrow> api_response \<times> nat \<times> event \<Rightarrow> connection" where
  "step lc s (r, now, Upstream e) = handleUpstream lc r now s e"
| "step lc s (r, now, ClientClose) = onClientClose now s"

definition run ::
  "(string \<Rightarrow> string) \<Rightarrow> connection \<Rightarrow> (api_response \<times> nat \<times> event) list \<Rightarrow> connection" where
  "run lc s evs = foldl (step lc) s evs"

text \<open>The connection right after the session row has been created.\<close>

definition newConnection :: "string \<Rightarrow> string \<Rightarrow> string option \<Rightarrow> connection" where
  "newConnection mode diff trig =
     \<lparr>salesMode = mode, difficulty = diff, triggerPhrase = trig, currentPhase = Greeting,
      isWaitingForUserTranscript = False, bufferedAssistantTranscript = [], clientOpen = True,
      session = \<lparr>outcome = None, saleConfirmed = False, db_currentPhase = Greeting,
                 endedAt = None\<rparr>,
      messages = [], sent = [], classifierCalls = []\<rparr>"

text \<open>What a handler delivered to the client: the events after those already sent.\<close>

definition newEvents :: "connection \<Rightarrow> connection \<Rightarrow> client_event list" where
  "newEvents s s' = drop (length (sent s)) (sent s')"

fun isOutcomeNotification :: "client_event \<Rightarrow> bool" where
  "isOutcomeNotification (Sale_made_event h m) = True"
| "isOutcomeNotification (Sale_denied_event h m) = True"
| "isOutcomeNotification e = False"

fun isAssistantTranscript :: "client_event \<Rightarrow> bool" where
  "isAssistantTranscript (Assistant_transcript t) = True"
| "isAssistantTranscript e = False"

fun isErrorEvent :: "client_event \<Rightarrow> bool" where
  "isErrorEvent (Error_event m) = True"
| "isErrorEvent e = False"

text \<open>A classifier answer with the given outcome and confidence and no display strings.\<close>

definition verdict :: "string \<Rightarrow> int \<Rightarrow> api_response" where
  "verdict oc c =
     Parsed \<lparr>json_outcome = Some oc, json_confidence = Some c, json_reasoning = None,
             json_keyPhrase = None, json_popupHeadline = None, json_popupMessage = None\<rparr>"


section \<open>Example sessions\<close>

text \<open>
  Sessions reached from a fresh connection, used to evaluate the handler. All their
  transcripts are ASCII text and the trigger phrase is the default one. On ASCII text
  \<open>toLowerCase\<close> maps the capitals A to Z to their lower-case letters and leaves every
  other character alone, which is \<open>asciiLowerCase\<close>; the example sessions are run with
  it, on ASCII text only.
\<close>

definition asciiLowerChar :: "char \<Rightarrow> char" where
  "asciiLowerChar c =
     (case map_of (zip ''ABCDEFGHIJKLMNOPQRSTUVWXYZ'' ''abcdefghijklmnopqrstuvwxyz'') c of
        Some d \<Rightarrow> d
      | None \<Rightarrow> c)"

definition asciiLowerCase :: "string \<Rightarrow> string" where
  "asciiLowerCase s = map asciiLowerChar s"

definition undecided :: api_response where
  "undecided = verdict ''UNDECIDED'' 30"

definition ai_start :: connection where
  "ai_start = newConnection ''ai_sells'' ''medium'' None"

definition user_start :: connection where
  "user_start = newConnection ''user_sells'' ''hard'' None"

text \<open>AI-sells session after the trigger phrase: phase \<open>Discovery\<close>, one user message.\<close>

definition ai_discovery :: connection where
  "ai_discovery =
     handleUpstream asciiLowerCase undecided 1 ai_start (InputTranscriptionCompleted ''Sell me a pen'')"

text \<open>The same session after the classifier has confirmed a sale at time 2.\<close>

definition ai_sold :: connection where
  "ai_sold =
     handleUpstream asciiLowerCase (verdict ''SALE_CONFIRMED'' 92) 2 ai_discovery
       (InputTranscriptionCompleted ''yes please order one'')"

text \<open>User-sells session whose first user message has started the pitch.\<close>

definition user_pitching :: connection where
  "user_pitching =
     handleUpstream asciiLowerCase undecided 1 user_start (InputTranscriptionCompleted ''This pen never skips'')"

text \<open>User-sells session whose client has disconnected at time 2 without an outcome.\<close>

definition user_abandoned :: connection where
  "user_abandoned = run asciiLowerCase user_pitching [(undecided, 2, ClientClose)]"

text \<open>AI-sells session after five user messages: phase \<open>Closing\<close>.\<close>

definition ai_closing :: connection where
  "ai_closing = run asciiLowerCase ai_start
     [(undecided, 1, Upstream (InputTranscriptionCompleted ''Sell me a pen'')),
      (undecided, 2, Upstream (InputTranscriptionCompleted ''I write a lot'')),
      (undecided, 3, Upstream (InputTranscriptionCompleted ''Mostly contracts'')),
      (undecided, 4, Upstream (InputTranscriptionCompleted ''A ballpoint I think'')),
      (undecided, 5, Upstream (InputTranscriptionCompleted ''What does it cost''))]"

text \<open>AI-sells session with sixteen stored messages, the last one the closing question.\<close>

definition ai_long :: connection where
  "ai_long = run asciiLowerCase ai_start
     [(undecided, 1, Upstream (InputTranscriptionCompleted ''Sell me a pen'')),
      (undecided, 2, Upstream (AudioTranscriptDone ''a1'')),
      (undecided, 3, Upstream (InputTranscriptionCompleted ''u2'')),
      (undecided, 4, Upstream (AudioTranscriptDone ''a2'')),
      (undecided, 5, Upstream (InputTranscriptionCompleted ''u3'')),
      (undecided, 6, Upstream (AudioTranscriptDone ''a3'')),
      (undecided, 7, Upstream (InputTranscriptionCompleted ''u4'')),
      (undecided, 8, Upstream (AudioTranscriptDone ''a4'')),
      (undecided, 9, Upstream (InputTranscriptionCompleted ''u5'')),
      (undecided, 10, Upstream (AudioTranscriptDone ''a5'')),
      (undecided, 11, Upstream (InputTranscriptionCompleted ''u6'')),
      (undecided, 12, Upstream (AudioTranscriptDone ''a6'')),
      (undecided, 13, Upstream (InputTranscriptionCompleted ''u7'')),
      (undecided, 14, Upstream (AudioTranscriptDone ''a7'')),
      (undecided, 15, Upstream (InputTranscriptionCompleted ''u8'')),
      (undecided, 16, Upstream (AudioTranscriptDone ''Shall I complete the purchase?''))]"

text \<open>A connection with two buffered fragments whose client socket has closed.\<close>

definition ai_closed_buffering :: connection where
  "ai_closed_buffering = run asciiLowerCase ai_discovery
     [(undecided, 2, Upstream SpeechStarted),
      (undecided, 3, Upstream (AudioTranscriptDelta ''Great '')),
      (undecided, 4, Upstream (AudioTranscriptDelta ''question'')),
      (undecided, 5, ClientClose)]"


section \<open>Properties of the handler's building blocks\<close>

lemmas prim_defs = clientSend_def logMessage_def updatePhase_def commitOutcome_def recordCall_def

lemma aiSellsPhase_frame:
  "sent (aiSellsPhase lc t s) = sent s"
  "clientOpen (aiSellsPhase lc t s) = clientOpen s"
  "classifierCalls (aiSellsPhase lc t s) = classifierCalls s"
  "bufferedAssistantTranscript (aiSellsPhase lc t s) = bufferedAssistantTranscript s"
  "outcome (session (aiSellsPhase lc t s)) = outcome (session s)"
  "endedAt (session (aiSellsPhase lc t s)) = endedAt (session s)"
  "saleConfirmed (session (aiSellsPhase lc t s)) = saleConfirmed (session s)"
  by (simp_all add: aiSellsPhase_def updatePhase_def Let_def)

lemma aiSellsPhase_not_completed:
  "db_currentPhase (session (aiSellsPhase lc t s)) = Completed \<Longrightarrow> db_currentPhase (session s) = Completed"
  by (simp add: aiSellsPhase_def updatePhase_def Let_def split: if_splits)

lemma aiSellsDecision_commit:
  assumes "(if e then 60 else 80) \<le> confidence a"
    and "analysis_outcome a = ''SALE_CONFIRMED'' \<or> analysis_outcome a = ''SALE_DENIED''"
  shows "session (aiSellsDecision a e now s)
           = \<lparr>outcome = Some (if analysis_outcome a = ''SALE_CONFIRMED'' then Sale_made else No_sale),
              saleConfirmed = (analysis_outcome a = ''SALE_CONFIRMED''),
              db_currentPhase = Completed, endedAt = Some now\<rparr>"
    and "clientOpen s \<Longrightarrow> \<exists>n. sent (aiSellsDecision a e now s) = sent s @ [n] \<and> isOutcomeNotification n"
    and "clientOpen (aiSellsDecision a e now s) = clientOpen s"
    and "bufferedAssistantTranscript (aiSellsDecision a e now s) = bufferedAssistantTranscript s"
  using assms by (auto simp: aiSellsDecision_def clientSend_def commitOutcome_def Let_def)

lemma aiSellsDecision_idle:
  assumes "\<not> (if e then 60 else 80) \<le> confidence a"
  shows "aiSellsDecision a e now s = s"
  using assms by (simp add: aiSellsDecision_def Let_def)


lemma aiSellsDecision_calls: "classifierCalls (aiSellsDecision a e now s) = classifierCalls s"
  by (simp add: aiSellsDecision_def clientSend_def commitOutcome_def Let_def)

lemma aiSellsTurn_called:
  assumes "classifierCalls (aiSellsTurn lc r now t s) \<noteq> classifierCalls s"
  shows "aiSellsTurn lc r now t s
           = aiSellsDecision (completion_result r) (isExitSignal lc t) now
               (recordCall (Seller_analysis (slice_last 10 (conversationHistory (aiSellsPhase lc t s))))
                  (aiSellsPhase lc t s))"
  using assms
  by (auto simp: aiSellsTurn_def detectSaleOutcome_def analyzeWithAI_def Let_def
        aiSellsPhase_frame split: if_splits)

lemma flushBuffered_frame:
  "session (flushBuffered s) = session s"
  "classifierCalls (flushBuffered s) = classifierCalls s"
  "bufferedAssistantTranscript (flushBuffered s) = []"
  "sent (flushBuffered s)
     = sent s @ (if bufferedAssistantTranscript s \<noteq> [] \<and> clientOpen s
                 then [Assistant_transcript (concat (bufferedAssistantTranscript s))] else [])"
  by (simp_all add: flushBuffered_def clientSend_def)

lemma onUserTranscript_ai_sells:
  assumes "salesMode s = ''ai_sells''" and "clientOpen s"
  shows "handleUpstream lc r now s (InputTranscriptionCompleted t)
           = (flushBuffered (aiSellsTurn lc r now t
                (logMessage ''user'' t (currentPhase s) (clientSend (User_transcript t) s))))
             \<lparr>isWaitingForUserTranscript := False\<rparr>"
  using assms by (simp add: onUserTranscript_def Let_def clientSend_def logMessage_def)

lemma onUserTranscript_calls_open:
  assumes "classifierCalls (handleUpstream lc r now s (InputTranscriptionCompleted t)) \<noteq> classifierCalls s"
  shows "clientOpen s"
  using assms by (auto simp: onUserTranscript_def split: if_splits)


lemma recordCall_frame:
  "sent (recordCall c s) = sent s"
  "clientOpen (recordCall c s) = clientOpen s"
  "session (recordCall c s) = session s"
  "bufferedAssistantTranscript (recordCall c s) = bufferedAssistantTranscript s"
  "classifierCalls (recordCall c s) = classifierCalls s @ [c]"
  by (simp_all add: recordCall_def)

lemma ai_sells_gate:
  assumes mode: "salesMode s = ''ai_sells''"
    and called: "classifierCalls (handleUpstream lc r now s (InputTranscriptionCompleted t)) \<noteq> classifierCalls s"
    and oc: "analysis_outcome (completion_result r) = ''SALE_CONFIRMED''
             \<or> analysis_outcome (completion_result r) = ''SALE_DENIED''"
  shows "if (if isExitSignal lc t then 60 else 80) \<le> confidence (completion_result r)
       then session (handleUpstream lc r now s (InputTranscriptionCompleted t))
              = \<lparr>outcome = Some (if analysis_outcome (completion_result r) = ''SALE_CONFIRMED'' then Sale_made else No_sale),
                 saleConfirmed = (analysis_outcome (completion_result r) = ''SALE_CONFIRMED''),
                 db_currentPhase = Completed, endedAt = Some now\<rparr>
            \<and> list_ex isOutcomeNotification (newEvents s (handleUpstream lc r now s (InputTranscriptionCompleted t)))
       else outcome (session (handleUpstream lc r now s (InputTranscriptionCompleted t))) = outcome (session s)
            \<and> endedAt (session (handleUpstream lc r now s (InputTranscriptionCompleted t))) = endedAt (session s)
            \<and> saleConfirmed (session (handleUpstream lc r now s (InputTranscriptionCompleted t))) = saleConfirmed (session s)
            \<and> (db_currentPhase (session (handleUpstream lc r now s (InputTranscriptionCompleted t))) = Completed
                 \<longrightarrow> db_currentPhase (session s) = Completed)
            \<and> \<not> list_ex isOutcomeNotification (newEvents s (handleUpstream lc r now s (InputTranscriptionCompleted t)))"
proof -
  let ?a = "completion_result r"
  let ?h = "handleUpstream lc r now s (InputTranscriptionCompleted t)"
  let ?s1 = "logMessage ''user'' t (currentPhase s) (clientSend (User_transcript t) s)"
  let ?s2 = "recordCall (Seller_analysis (slice_last 10 (conversationHistory (aiSellsPhase lc t ?s1))))
               (aiSellsPhase lc t ?s1)"
  have opn: "clientOpen s" using called by (rule onUserTranscript_calls_open)
  have h: "?h = (flushBuffered (aiSellsTurn lc r now t ?s1))\<lparr>isWaitingForUserTranscript := False\<rparr>"
    using mode opn by (rule onUserTranscript_ai_sells)
  have s1: "classifierCalls ?s1 = classifierCalls s" "sent ?s1 = sent s @ [User_transcript t]"
    "clientOpen ?s1" "session ?s1 = session s"
    using opn by (simp_all add: logMessage_def clientSend_def)
  have "classifierCalls (aiSellsTurn lc r now t ?s1) \<noteq> classifierCalls ?s1"
    using called h s1(1) by (simp add: flushBuffered_frame)
  then have turn: "aiSellsTurn lc r now t ?s1 = aiSellsDecision ?a (isExitSignal lc t) now ?s2"
    by (rule aiSellsTurn_called)
  have s2: "sent ?s2 = sent s @ [User_transcript t]" "clientOpen ?s2"
    "outcome (session ?s2) = outcome (session s)" "endedAt (session ?s2) = endedAt (session s)"
    "saleConfirmed (session ?s2) = saleConfirmed (session s)"
    using s1 by (simp_all add: recordCall_frame aiSellsPhase_frame)
  have s2p: "db_currentPhase (session ?s2) = Completed \<Longrightarrow> db_currentPhase (session s) = Completed"
    using aiSellsPhase_not_completed [of lc t ?s1] s1(4) by (simp add: recordCall_frame)
  show ?thesis
  proof (cases "(if isExitSignal lc t then 60 else 80) \<le> confidence ?a")
    case True
    have sess: "session ?h = \<lparr>outcome = Some (if analysis_outcome ?a = ''SALE_CONFIRMED'' then Sale_made else No_sale),
                 saleConfirmed = (analysis_outcome ?a = ''SALE_CONFIRMED''),
                 db_currentPhase = Completed, endedAt = Some now\<rparr>"
      using aiSellsDecision_commit(1) [OF True oc, of now ?s2] h turn
      by (simp add: flushBuffered_frame)
    obtain n where n: "sent (aiSellsDecision ?a (isExitSignal lc t) now ?s2) = sent ?s2 @ [n]"
        "isOutcomeNotification n"
      using aiSellsDecision_commit(2) [OF True oc s2(2), of now] by blast
    have "\<exists>rest. newEvents s ?h = User_transcript t # n # rest"
      using h turn n(1) s2(1) by (simp add: flushBuffered_frame newEvents_def)
    then have "list_ex isOutcomeNotification (newEvents s ?h)"
      using n(2) by auto
    with sess True show ?thesis by simp
  next
    case False
    then have idle: "aiSellsDecision ?a (isExitSignal lc t) now ?s2 = ?s2"
      by (rule aiSellsDecision_idle)
    have hs: "session ?h = session ?s2"
      using h turn idle by (simp add: flushBuffered_frame)
    have "\<exists>rest. newEvents s ?h = User_transcript t # rest \<and> \<not> list_ex isOutcomeNotification rest"
      using h turn idle s2(1) by (simp add: flushBuffered_frame newEvents_def)
    then have "\<not> list_ex isOutcomeNotification (newEvents s ?h)"
      by auto
    with False hs s2 s2p show ?thesis by simp
  qed
qed


lemma userSellsDecision_commit:
  assumes "80 \<le> confidence a"
    and "analysis_outcome a = ''SALE_CONFIRMED'' \<or> analysis_outcome a = ''SALE_DENIED''"
  shows "session (userSellsDecision a now s)
           = \<lparr>outcome = Some (if analysis_outcome a = ''SALE_CONFIRMED'' then Sale_made else No_sale),
              saleConfirmed = (analysis_outcome a = ''SALE_CONFIRMED''),
              db_currentPhase = Completed, endedAt = Some now\<rparr>"
    and "clientOpen s \<Longrightarrow> \<exists>n. sent (userSellsDecision a now s) = sent s @ [n] \<and> isOutcomeNotification n"
  using assms by (auto simp: userSellsDecision_def clientSend_def commitOutcome_def)

lemma userSellsDecision_idle:
  assumes "\<not> 80 \<le> confidence a"
  shows "userSellsDecision a now s = s"
  using assms by (simp add: userSellsDecision_def)

lemma onTranscriptDone_called:
  assumes "classifierCalls (handleUpstream lc r now s (AudioTranscriptDone t)) \<noteq> classifierCalls s"
  shows "handleUpstream lc r now s (AudioTranscriptDone t)
           = userSellsDecision (completion_result r) now
               (recordCall (Customer_analysis (difficulty s)
                    (slice_last 12 (conversationHistory (logMessage ''assistant'' t (currentPhase s) s))))
                  (logMessage ''assistant'' t (currentPhase s) s))"
  using assms
  by (auto simp: onTranscriptDone_def detectUserSaleOutcome_def Let_def logMessage_def
        split: if_splits)

lemma userSellsDecision_closed:
  assumes "\<not> clientOpen s"
  shows "sent (userSellsDecision a now s) = sent s"
  using assms by (simp add: userSellsDecision_def clientSend_def commitOutcome_def)

lemma user_sells_gate:
  assumes called: "classifierCalls (handleUpstream lc r now s (AudioTranscriptDone t)) \<noteq> classifierCalls s"
    and oc: "analysis_outcome (completion_result r) = ''SALE_CONFIRMED''
             \<or> analysis_outcome (completion_result r) = ''SALE_DENIED''"
  shows "if 80 \<le> confidence (completion_result r)
       then session (handleUpstream lc r now s (AudioTranscriptDone t))
              = \<lparr>outcome = Some (if analysis_outcome (completion_result r) = ''SALE_CONFIRMED'' then Sale_made else No_sale),
                 saleConfirmed = (analysis_outcome (completion_result r) = ''SALE_CONFIRMED''),
                 db_currentPhase = Completed, endedAt = Some now\<rparr>
            \<and> list_ex isOutcomeNotification (newEvents s (handleUpstream lc r now s (AudioTranscriptDone t)))
                = clientOpen s
       else session (handleUpstream lc r now s (AudioTranscriptDone t)) = session s
            \<and> newEvents s (handleUpstream lc r now s (AudioTranscriptDone t)) = []"
proof -
  let ?a = "completion_result r"
  let ?h = "handleUpstream lc r now s (AudioTranscriptDone t)"
  let ?s1 = "logMessage ''assistant'' t (currentPhase s) s"
  let ?s2 = "recordCall (Customer_analysis (difficulty s) (slice_last 12 (conversationHistory ?s1))) ?s1"
  have h: "?h = userSellsDecision ?a now ?s2"
    using called by (rule onTranscriptDone_called)
  have s2: "sent ?s2 = sent s" "clientOpen ?s2 = clientOpen s" "session ?s2 = session s"
    by (simp_all add: recordCall_frame logMessage_def)
  show ?thesis
  proof (cases "80 \<le> confidence ?a")
    case True
    have sess: "session ?h = \<lparr>outcome = Some (if analysis_outcome ?a = ''SALE_CONFIRMED'' then Sale_made else No_sale),
                 saleConfirmed = (analysis_outcome ?a = ''SALE_CONFIRMED''),
                 db_currentPhase = Completed, endedAt = Some now\<rparr>"
      using userSellsDecision_commit(1) [OF True oc, of now ?s2] h by simp
    have ntf: "list_ex isOutcomeNotification (newEvents s ?h) = clientOpen s"
    proof (cases "clientOpen s")
      case opn: True
      then have "clientOpen ?s2" using s2(2) by simp
      then obtain n where n: "sent (userSellsDecision ?a now ?s2) = sent ?s2 @ [n]"
          "isOutcomeNotification n"
        using userSellsDecision_commit(2) [OF True oc, of ?s2 now] by blast
      have "newEvents s ?h = [n]"
        using h n(1) s2(1) by (simp add: newEvents_def)
      then show ?thesis using n(2) opn by simp
    next
      case cls: False
      then have "\<not> clientOpen ?s2" using s2(2) by simp
      then have "sent (userSellsDecision ?a now ?s2) = sent ?s2"
        by (rule userSellsDecision_closed)
      then have "newEvents s ?h = []"
        using h s2(1) by (simp add: newEvents_def)
      then show ?thesis using cls by simp
    qed
    from sess ntf True show ?thesis by simp
  next
    case False
    then have "userSellsDecision ?a now ?s2 = ?s2"
      by (rule userSellsDecision_idle)
    with h have "?h = ?s2" by simp
    with s2 have "session ?h = session s" "newEvents s ?h = []"
      by (simp_all add: newEvents_def)
    with False show ?thesis by simp
  qed
qed

lemma aiSellsDecision_sent:
  "\<exists>ns. sent (aiSellsDecision a e now s) = sent s @ ns \<and> filter isAssistantTranscript ns = []
        \<and> \<not> list_ex isErrorEvent ns"
  by (simp add: aiSellsDecision_def clientSend_def commitOutcome_def Let_def)

lemma aiSellsDecision_frame:
  "clientOpen (aiSellsDecision a e now s) = clientOpen s"
  "bufferedAssistantTranscript (aiSellsDecision a e now s) = bufferedAssistantTranscript s"
  by (simp_all add: aiSellsDecision_def clientSend_def commitOutcome_def Let_def)

lemma aiSellsTurn_unfold:
  "aiSellsTurn lc r now t s
     = (if isExitSignal lc t \<or> isBuySignal lc t \<or> currentPhase (aiSellsPhase lc t s) \<noteq> Greeting
        then aiSellsDecision (completion_result r) (isExitSignal lc t) now
               (recordCall (Seller_analysis (slice_last 10 (conversationHistory (aiSellsPhase lc t s))))
                  (aiSellsPhase lc t s))
        else aiSellsPhase lc t s)"
  by (auto simp: aiSellsTurn_def detectSaleOutcome_def analyzeWithAI_def Let_def)

lemma aiSellsTurn_frame:
  "clientOpen (aiSellsTurn lc r now t s) = clientOpen s"
  "bufferedAssistantTranscript (aiSellsTurn lc r now t s) = bufferedAssistantTranscript s"
  by (simp_all add: aiSellsTurn_unfold aiSellsDecision_frame recordCall_frame aiSellsPhase_frame)

lemma aiSellsTurn_sent:
  "\<exists>ns. sent (aiSellsTurn lc r now t s) = sent s @ ns \<and> filter isAssistantTranscript ns = []
        \<and> \<not> list_ex isErrorEvent ns"
proof (cases "isExitSignal lc t \<or> isBuySignal lc t \<or> currentPhase (aiSellsPhase lc t s) \<noteq> Greeting")
  case True
  then show ?thesis
    using aiSellsDecision_sent [of "completion_result r" "isExitSignal lc t" now
        "recordCall (Seller_analysis (slice_last 10 (conversationHistory (aiSellsPhase lc t s)))) (aiSellsPhase lc t s)"]
    by (simp add: aiSellsTurn_unfold recordCall_frame aiSellsPhase_frame)
next
  case False
  then show ?thesis by (simp add: aiSellsTurn_unfold aiSellsPhase_frame)
qed

lemma userSellsTurn_frame:
  "clientOpen (userSellsTurn lc now t s) = clientOpen s"
  "bufferedAssistantTranscript (userSellsTurn lc now t s) = bufferedAssistantTranscript s"
  by (simp_all add: userSellsTurn_def clientSend_def commitOutcome_def updatePhase_def Let_def)

lemma userSellsTurn_sent:
  "\<exists>ns. sent (userSellsTurn lc now t s) = sent s @ ns \<and> filter isAssistantTranscript ns = []
        \<and> \<not> list_ex isErrorEvent ns"
  by (simp add: userSellsTurn_def clientSend_def commitOutcome_def updatePhase_def Let_def)

lemma onUserTranscript_open_events:
  assumes "clientOpen s"
  shows "\<exists>ns. newEvents s (handleUpstream lc r now s (InputTranscriptionCompleted t))
               = User_transcript t # ns
                 @ (if bufferedAssistantTranscript s \<noteq> []
                    then [Assistant_transcript (concat (bufferedAssistantTranscript s))] else [])
             \<and> filter isAssistantTranscript ns = [] \<and> \<not> list_ex isErrorEvent ns"
proof -
  let ?s1 = "logMessage ''user'' t (currentPhase s) (clientSend (User_transcript t) s)"
  let ?s3 = "if salesMode s = ''ai_sells'' then aiSellsTurn lc r now t ?s1 else userSellsTurn lc now t ?s1"
  have s1: "sent ?s1 = sent s @ [User_transcript t]" "clientOpen ?s1"
    "bufferedAssistantTranscript ?s1 = bufferedAssistantTranscript s"
    using assms by (simp_all add: logMessage_def clientSend_def)
  have h: "handleUpstream lc r now s (InputTranscriptionCompleted t)
             = (flushBuffered ?s3)\<lparr>isWaitingForUserTranscript := False\<rparr>"
    using assms by (simp add: onUserTranscript_def Let_def logMessage_def clientSend_def)
  obtain ns where ns: "sent ?s3 = sent ?s1 @ ns" "filter isAssistantTranscript ns = []"
      "\<not> list_ex isErrorEvent ns"
    using aiSellsTurn_sent [of lc r now t ?s1] userSellsTurn_sent [of lc now t ?s1]
    by (cases "salesMode s = ''ai_sells''") auto
  have fr: "clientOpen ?s3" "bufferedAssistantTranscript ?s3 = bufferedAssistantTranscript s"
    using s1 by (simp_all add: aiSellsTurn_frame userSellsTurn_frame)
  have "sent (handleUpstream lc r now s (InputTranscriptionCompleted t))
          = sent s @ User_transcript t # ns
              @ (if bufferedAssistantTranscript s \<noteq> []
                 then [Assistant_transcript (concat (bufferedAssistantTranscript s))] else [])"
    unfolding h using ns(1) s1(1) fr by (simp add: flushBuffered_frame)
  then show ?thesis using ns(2,3) by (auto simp: newEvents_def)
qed

lemma onUserTranscript_buffer:
  assumes "clientOpen s"
  shows "bufferedAssistantTranscript (handleUpstream lc r now s (InputTranscriptionCompleted t)) = []"
  using assms by (simp add: onUserTranscript_def Let_def flushBuffered_frame)


lemma completion_result_failure:
  assumes "r = CallFailed \<or> r = Unparseable"
  shows "completion_result r =
           \<lparr>analysis_outcome = ''UNDECIDED'', confidence = 0,
            reasoning = ''Analysis error - defaulting to undecided'',
            keyPhrase = None, popupHeadline = None, popupMessage = None\<rparr>"
  using assms by (auto simp: completion_result_def)

lemma onTranscriptDone_failure:
  assumes "r = CallFailed \<or> r = Unparseable"
  shows "sent (handleUpstream lc r now s (AudioTranscriptDone t)) = sent s"
    and "session (handleUpstream lc r now s (AudioTranscriptDone t)) = session s"
    and "clientOpen (handleUpstream lc r now s (AudioTranscriptDone t)) = clientOpen s"
  by (simp_all add: onTranscriptDone_def detectUserSaleOutcome_def userSellsDecision_def
        completion_result_failure [OF assms] Let_def logMessage_def recordCall_def)

lemma onUserTranscript_clientOpen:
  "clientOpen (handleUpstream lc r now s (InputTranscriptionCompleted t)) = clientOpen s"
  by (simp add: onUserTranscript_def Let_def flushBuffered_def clientSend_def logMessage_def
        aiSellsTurn_frame userSellsTurn_frame)

lemma onUserTranscript_no_error:
  "\<not> list_ex isErrorEvent (newEvents s (handleUpstream lc r now s (InputTranscriptionCompleted t)))"
proof (cases "clientOpen s")
  case True
  from onUserTranscript_open_events [OF True, of lc r now t] show ?thesis
    by (auto split: if_splits)
next
  case False
  then show ?thesis by (simp add: onUserTranscript_def newEvents_def)
qed

lemma onUserTranscript_ai_sells_failure:
  assumes fail: "r = CallFailed \<or> r = Unparseable" and mode: "salesMode s = ''ai_sells''"
  shows "outcome (session (handleUpstream lc r now s (InputTranscriptionCompleted t))) = outcome (session s)"
    and "endedAt (session (handleUpstream lc r now s (InputTranscriptionCompleted t))) = endedAt (session s)"
proof -
  let ?s1 = "logMessage ''user'' t (currentPhase s) (clientSend (User_transcript t) s)"
  have idle: "aiSellsDecision (completion_result r) e now' s' = s'" for e now' s'
    by (rule aiSellsDecision_idle) (simp add: completion_result_failure [OF fail])
  have s1: "session ?s1 = session s" by (simp add: logMessage_def clientSend_def)
  have turn: "outcome (session (aiSellsTurn lc r now t ?s1)) = outcome (session s)"
    "endedAt (session (aiSellsTurn lc r now t ?s1)) = endedAt (session s)"
    using s1 by (simp_all add: aiSellsTurn_unfold idle recordCall_frame aiSellsPhase_frame)
  show "outcome (session (handleUpstream lc r now s (InputTranscriptionCompleted t))) = outcome (session s)"
  proof (cases "clientOpen s")
    case True
    with mode have "handleUpstream lc r now s (InputTranscriptionCompleted t)
             = (flushBuffered (aiSellsTurn lc r now t ?s1))\<lparr>isWaitingForUserTranscript := False\<rparr>"
      by (rule onUserTranscript_ai_sells)
    with turn(1) show ?thesis by (simp add: flushBuffered_frame)
  next
    case False
    then show ?thesis by (simp add: onUserTranscript_def)
  qed
  show "endedAt (session (handleUpstream lc r now s (InputTranscriptionCompleted t))) = endedAt (session s)"
  proof (cases "clientOpen s")
    case True
    with mode have "handleUpstream lc r now s (InputTranscriptionCompleted t)
             = (flushBuffered (aiSellsTurn lc r now t ?s1))\<lparr>isWaitingForUserTranscript := False\<rparr>"
      by (rule onUserTranscript_ai_sells)
    with turn(2) show ?thesis by (simp add: flushBuffered_frame)
  next
    case False
    then show ?thesis by (simp add: onUserTranscript_def)
  qed
qed

lemma aiSellsPhase_leaves_greeting:
  "currentPhase (aiSellsPhase lc t s) = Greeting
     \<longleftrightarrow> currentPhase s = Greeting \<and> \<not> str_includes (lc t) (effectiveTrigger lc s)"
  by (auto simp: aiSellsPhase_def updatePhase_def Let_def)

lemma aiSellsPhase_greeting_id:
  assumes "currentPhase s = Greeting" and "\<not> str_includes (lc t) (effectiveTrigger lc s)"
  shows "aiSellsPhase lc t s = s"
  using assms by (simp add: aiSellsPhase_def Let_def)

lemma step_closed:
  assumes "\<not> clientOpen s"
  shows "sent (step lc s x) = sent s \<and> \<not> clientOpen (step lc s x)"
proof -
  obtain r now e where x: "x = (r, now, e)" by (cases x)
  show ?thesis
  proof (cases e)
    case (Upstream u)
    with assms x show ?thesis
      by (cases u)
        (auto simp: onUserTranscript_def onTranscriptDone_def detectUserSaleOutcome_def
           userSellsDecision_def prim_defs Let_def)
  next
    case ClientClose
    with assms x show ?thesis by (simp add: onClientClose_def Let_def)
  qed
qed

lemma run_closed: "\<not> clientOpen s \<Longrightarrow> sent (run lc s evs) = sent s"
  unfolding run_def
  by (induction evs arbitrary: s) (simp_all add: step_closed)


section \<open>Write-once outcome\<close>

text \<open>
  C1. The claim: once the session's outcome is set, no later gate invocation or commit
  path changes \<open>outcome\<close>, \<open>endedAt\<close> or the phase. The handler's commit blocks update
  the row without reading it, and the closure variable \<open>currentPhase\<close> never becomes
  \<open>Completed\<close>, so the gate keeps running. Evaluated on two sessions: a sale committed
  at time 2 is replaced by \<open>No_sale\<close> at time 3 when the user says goodbye and the
  classifier answers DENIED with confidence 65; a session marked \<open>Abandoned\<close> at time 2
  is replaced by \<open>Sale_made\<close> when a finished assistant transcript is classified after
  the disconnect.
\<close>

theorem committed_outcome_is_overwritten:
  "outcome (session ai_sold) = Some Sale_made
   \<and> endedAt (session ai_sold) = Some 2
   \<and> outcome (session (handleUpstream asciiLowerCase (verdict ''SALE_DENIED'' 65) 3 ai_sold
        (InputTranscriptionCompleted ''thanks, bye''))) = Some No_sale
   \<and> endedAt (session (handleUpstream asciiLowerCase (verdict ''SALE_DENIED'' 65) 3 ai_sold
        (InputTranscriptionCompleted ''thanks, bye''))) = Some 3
   \<and> outcome (session user_abandoned) = Some Abandoned
   \<and> endedAt (session user_abandoned) = Some 2
   \<and> outcome (session (handleUpstream asciiLowerCase (verdict ''SALE_CONFIRMED'' 90) 3 user_abandoned
        (AudioTranscriptDone ''Okay, I'll take it''))) = Some Sale_made
   \<and> endedAt (session (handleUpstream asciiLowerCase (verdict ''SALE_CONFIRMED'' 90) 3 user_abandoned
        (AudioTranscriptDone ''Okay, I'll take it''))) = Some 3"
  by code_simp


section \<open>Phase order\<close>

text \<open>
  C2. The claim: in AI-sells mode the phase never moves to an earlier value, in
  particular not on a trigger phrase said in a later phase. The handler assigns
  \<open>Discovery\<close> whenever the utterance contains the trigger phrase, whatever the current
  phase. Evaluated on a session that has reached \<open>Closing\<close> with five user messages:
  a sixth utterance containing the trigger phrase leaves the closure variable and the
  stored phase at \<open>Positioning\<close>.
\<close>

theorem trigger_phrase_regresses_phase:
  "currentPhase ai_closing = Closing
   \<and> db_currentPhase (session ai_closing) = Closing
   \<and> currentPhase (handleUpstream asciiLowerCase undecided 6 ai_closing
        (InputTranscriptionCompleted ''Sell me a pen again'')) = Positioning
   \<and> db_currentPhase (session (handleUpstream asciiLowerCase undecided 6 ai_closing
        (InputTranscriptionCompleted ''Sell me a pen again''))) = Positioning"
  by code_simp


section \<open>When the classifier is called in AI-sells mode\<close>

text \<open>
  C3, as stated, fails: in phase \<open>Discovery\<close>, an utterance with neither an exit nor a
  buy phrase still reaches the classifier, and a confident answer commits the outcome.
\<close>

theorem classifier_runs_in_discovery:
  "salesMode ai_discovery = ''ai_sells''
   \<and> currentPhase ai_discovery = Discovery
   \<and> \<not> isExitSignal asciiLowerCase ''tell me more''
   \<and> \<not> isBuySignal asciiLowerCase ''tell me more''
   \<and> currentPhase (handleUpstream asciiLowerCase (verdict ''SALE_CONFIRMED'' 90) 2 ai_discovery
        (InputTranscriptionCompleted ''tell me more'')) = Discovery
   \<and> classifierCalls (handleUpstream asciiLowerCase (verdict ''SALE_CONFIRMED'' 90) 2 ai_discovery
        (InputTranscriptionCompleted ''tell me more'')) \<noteq> classifierCalls ai_discovery
   \<and> outcome (session ai_discovery) = None
   \<and> outcome (session (handleUpstream asciiLowerCase (verdict ''SALE_CONFIRMED'' 90) 2 ai_discovery
        (InputTranscriptionCompleted ''tell me more''))) = Some Sale_made"
  by code_simp

text \<open>
  C3, amended. In AI-sells mode, for a finalized user utterance with neither an exit nor
  a buy phrase: the classifier is not called and nothing is committed (the session row
  and the closure variable \<open>currentPhase\<close> are unchanged) if the client socket is not
  open, or if the closure variable \<open>currentPhase\<close> is \<open>Greeting\<close> and the utterance does
  not contain the trigger phrase. In every other case, that is with the client socket
  open and either \<open>currentPhase\<close> past \<open>Greeting\<close> (\<open>Discovery\<close>, \<open>Positioning\<close> or
  \<open>Closing\<close>) or the trigger phrase in the utterance, the classifier is called exactly
  once.
\<close>

theorem classifier_skipped_only_in_greeting:
  assumes mode: "salesMode s = ''ai_sells''"
    and ne: "\<not> isExitSignal lc t"
    and nb: "\<not> isBuySignal lc t"
  shows "if clientOpen s
            \<and> (currentPhase s \<noteq> Greeting \<or> str_includes (lc t) (effectiveTrigger lc s))
         then length (classifierCalls (handleUpstream lc r now s (InputTranscriptionCompleted t)))
                = Suc (length (classifierCalls s))
         else classifierCalls (handleUpstream lc r now s (InputTranscriptionCompleted t))
                = classifierCalls s
              \<and> session (handleUpstream lc r now s (InputTranscriptionCompleted t)) = session s
              \<and> currentPhase (handleUpstream lc r now s (InputTranscriptionCompleted t))
                = currentPhase s"
proof (cases "clientOpen s")
  case closed: False
  then have c: "\<not> (clientOpen s
            \<and> (currentPhase s \<noteq> Greeting \<or> str_includes (lc t) (effectiveTrigger lc s)))"
    by simp
  have "handleUpstream lc r now s (InputTranscriptionCompleted t)
          = s\<lparr>isWaitingForUserTranscript := False\<rparr>"
    using closed by (simp add: onUserTranscript_def)
  then have "classifierCalls (handleUpstream lc r now s (InputTranscriptionCompleted t))
                = classifierCalls s
              \<and> session (handleUpstream lc r now s (InputTranscriptionCompleted t)) = session s
              \<and> currentPhase (handleUpstream lc r now s (InputTranscriptionCompleted t))
                = currentPhase s"
    by simp
  then show ?thesis by (subst if_not_P [OF c])
next
  case opn: True
  let ?s1 = "logMessage ''user'' t (currentPhase s) (clientSend (User_transcript t) s)"
  have h: "handleUpstream lc r now s (InputTranscriptionCompleted t)
             = (flushBuffered (aiSellsTurn lc r now t ?s1))\<lparr>isWaitingForUserTranscript := False\<rparr>"
    using mode opn by (rule onUserTranscript_ai_sells)
  have s1: "currentPhase ?s1 = currentPhase s" "effectiveTrigger lc ?s1 = effectiveTrigger lc s"
    "classifierCalls ?s1 = classifierCalls s" "session ?s1 = session s"
    by (simp_all add: logMessage_def clientSend_def effectiveTrigger_def)
  show ?thesis
  proof (cases "currentPhase s = Greeting \<and> \<not> str_includes (lc t) (effectiveTrigger lc s)")
    case True
    then have c: "\<not> (clientOpen s
            \<and> (currentPhase s \<noteq> Greeting \<or> str_includes (lc t) (effectiveTrigger lc s)))"
      by simp
    from True have "aiSellsPhase lc t ?s1 = ?s1"
      using s1(1,2) by (simp add: aiSellsPhase_greeting_id)
    then have "aiSellsTurn lc r now t ?s1 = ?s1"
      using ne nb True s1(1) by (simp add: aiSellsTurn_unfold)
    then have "classifierCalls (handleUpstream lc r now s (InputTranscriptionCompleted t))
                = classifierCalls s
              \<and> session (handleUpstream lc r now s (InputTranscriptionCompleted t)) = session s
              \<and> currentPhase (handleUpstream lc r now s (InputTranscriptionCompleted t))
                = currentPhase s"
      using s1 unfolding h by (simp add: flushBuffered_frame flushBuffered_def clientSend_def)
    then show ?thesis by (subst if_not_P [OF c])
  next
    case False
    with opn have c: "clientOpen s
            \<and> (currentPhase s \<noteq> Greeting \<or> str_includes (lc t) (effectiveTrigger lc s))"
      by simp
    from False have "currentPhase (aiSellsPhase lc t ?s1) \<noteq> Greeting"
      using s1(1,2) by (simp add: aiSellsPhase_leaves_greeting)
    then have "classifierCalls (aiSellsTurn lc r now t ?s1)
                 = classifierCalls s
                   @ [Seller_analysis (slice_last 10 (conversationHistory (aiSellsPhase lc t ?s1)))]"
      using s1(3)
      by (simp add: aiSellsTurn_unfold aiSellsDecision_calls recordCall_frame aiSellsPhase_frame)
    then have "length (classifierCalls (handleUpstream lc r now s (InputTranscriptionCompleted t)))
                 = Suc (length (classifierCalls s))"
      unfolding h by (simp add: flushBuffered_frame)
    then show ?thesis by (subst if_P [OF c])
  qed
qed

text \<open>
  The three cases on example sessions: a greeting without the trigger phrase (no call,
  even though the answer on offer is a confident SALE_CONFIRMED), an utterance in
  \<open>Discovery\<close> (one call), and an utterance after the client socket has closed (no call).
\<close>

theorem classifier_skipped_only_in_greeting_witness:
  "salesMode ai_start = ''ai_sells''
   \<and> \<not> isExitSignal asciiLowerCase ''hello there''
   \<and> \<not> isBuySignal asciiLowerCase ''hello there''
   \<and> classifierCalls (handleUpstream asciiLowerCase (verdict ''SALE_CONFIRMED'' 95) 1 ai_start
        (InputTranscriptionCompleted ''hello there'')) = classifierCalls ai_start
   \<and> session (handleUpstream asciiLowerCase (verdict ''SALE_CONFIRMED'' 95) 1 ai_start
        (InputTranscriptionCompleted ''hello there'')) = session ai_start
   \<and> salesMode ai_discovery = ''ai_sells''
   \<and> \<not> isExitSignal asciiLowerCase ''tell me more''
   \<and> \<not> isBuySignal asciiLowerCase ''tell me more''
   \<and> length (classifierCalls (handleUpstream asciiLowerCase (verdict ''SALE_CONFIRMED'' 95) 2
        ai_discovery (InputTranscriptionCompleted ''tell me more''))) = 2
   \<and> salesMode ai_closed_buffering = ''ai_sells''
   \<and> classifierCalls (handleUpstream asciiLowerCase (verdict ''SALE_CONFIRMED'' 95) 6
        ai_closed_buffering (InputTranscriptionCompleted ''tell me more''))
       = classifierCalls ai_closed_buffering"
proof -
  have g: "salesMode ai_start = ''ai_sells''"
    "\<not> isExitSignal asciiLowerCase ''hello there''"
    "\<not> isBuySignal asciiLowerCase ''hello there''" by code_simp+
  have gp: "clientOpen ai_start" "currentPhase ai_start = Greeting"
    "\<not> str_includes (asciiLowerCase ''hello there'') (effectiveTrigger asciiLowerCase ai_start)"
    by code_simp+
  have d: "salesMode ai_discovery = ''ai_sells''"
    "\<not> isExitSignal asciiLowerCase ''tell me more''"
    "\<not> isBuySignal asciiLowerCase ''tell me more''" by code_simp+
  have dp: "clientOpen ai_discovery" "currentPhase ai_discovery \<noteq> Greeting"
    "length (classifierCalls ai_discovery) = 1"
    by code_simp+
  have k: "salesMode ai_closed_buffering = ''ai_sells''" by code_simp
  have kp: "\<not> clientOpen ai_closed_buffering" by code_simp
  have r1: "classifierCalls (handleUpstream asciiLowerCase (verdict ''SALE_CONFIRMED'' 95) 1 ai_start
        (InputTranscriptionCompleted ''hello there'')) = classifierCalls ai_start
     \<and> session (handleUpstream asciiLowerCase (verdict ''SALE_CONFIRMED'' 95) 1 ai_start
        (InputTranscriptionCompleted ''hello there'')) = session ai_start"
    using classifier_skipped_only_in_greeting [OF g, of "verdict ''SALE_CONFIRMED'' 95" 1] gp
    by simp
  have r2: "length (classifierCalls (handleUpstream asciiLowerCase (verdict ''SALE_CONFIRMED'' 95) 2
        ai_discovery (InputTranscriptionCompleted ''tell me more''))) = 2"
    using classifier_skipped_only_in_greeting [OF d, of "verdict ''SALE_CONFIRMED'' 95" 2] dp
    by simp
  have r3: "classifierCalls (handleUpstream asciiLowerCase (verdict ''SALE_CONFIRMED'' 95) 6
        ai_closed_buffering (InputTranscriptionCompleted ''tell me more''))
       = classifierCalls ai_closed_buffering"
    using classifier_skipped_only_in_greeting [OF k d(2,3), of "verdict ''SALE_CONFIRMED'' 95" 6] kp
    by simp
  from g d k r1 r2 r3 show ?thesis by blast
qed


section \<open>Confidence thresholds of the gate\<close>

text \<open>
  C4. When the classifier has been called and its verdict is SALE_CONFIRMED or
  SALE_DENIED, the gate commits if and only if the confidence reaches the threshold:
  in AI-sells mode 60 when the utterance carries an exit phrase and 80 otherwise, in
  user-sells mode 80. A commit writes the outcome (\<open>Sale_made\<close> or \<open>No_sale\<close>), the end
  time and the phase \<open>Completed\<close> to the row and sends the notification (in user-sells
  mode the row is written whether or not the client socket is open, and the notification
  reaches the client exactly when it is open); below the threshold the outcome and the
  end time stay as they were, the stored phase does not become \<open>Completed\<close> and no
  notification is sent. The exit phrase is looked for in the transcript as lower-cased
  by the runtime's \<open>toLowerCase\<close>, the parameter \<open>lc\<close>.
\<close>

theorem gate_commits_iff_threshold:
  "(salesMode s = ''ai_sells''
    \<and> classifierCalls (handleUpstream lc r now s (InputTranscriptionCompleted t)) \<noteq> classifierCalls s
    \<and> (analysis_outcome (completion_result r) = ''SALE_CONFIRMED''
        \<or> analysis_outcome (completion_result r) = ''SALE_DENIED'')
    \<longrightarrow>
      (if (if isExitSignal lc t then 60 else 80) \<le> confidence (completion_result r)
       then session (handleUpstream lc r now s (InputTranscriptionCompleted t))
              = \<lparr>outcome = Some (if analysis_outcome (completion_result r) = ''SALE_CONFIRMED''
                                 then Sale_made else No_sale),
                 saleConfirmed = (analysis_outcome (completion_result r) = ''SALE_CONFIRMED''),
                 db_currentPhase = Completed, endedAt = Some now\<rparr>
            \<and> list_ex isOutcomeNotification
                (newEvents s (handleUpstream lc r now s (InputTranscriptionCompleted t)))
       else outcome (session (handleUpstream lc r now s (InputTranscriptionCompleted t)))
              = outcome (session s)
            \<and> endedAt (session (handleUpstream lc r now s (InputTranscriptionCompleted t)))
              = endedAt (session s)
            \<and> saleConfirmed (session (handleUpstream lc r now s (InputTranscriptionCompleted t)))
              = saleConfirmed (session s)
            \<and> (db_currentPhase (session (handleUpstream lc r now s (InputTranscriptionCompleted t)))
                 = Completed \<longrightarrow> db_currentPhase (session s) = Completed)
            \<and> \<not> list_ex isOutcomeNotification
                (newEvents s (handleUpstream lc r now s (InputTranscriptionCompleted t)))))
   \<and>
   (salesMode s = ''user_sells''
    \<and> classifierCalls (handleUpstream lc r now s (AudioTranscriptDone t)) \<noteq> classifierCalls s
    \<and> (analysis_outcome (completion_result r) = ''SALE_CONFIRMED''
        \<or> analysis_outcome (completion_result r) = ''SALE_DENIED'')
    \<longrightarrow>
      (if 80 \<le> confidence (completion_result r)
       then session (handleUpstream lc r now s (AudioTranscriptDone t))
              = \<lparr>outcome = Some (if analysis_outcome (completion_result r) = ''SALE_CONFIRMED''
                                 then Sale_made else No_sale),
                 saleConfirmed = (analysis_outcome (completion_result r) = ''SALE_CONFIRMED''),
                 db_currentPhase = Completed, endedAt = Some now\<rparr>
            \<and> list_ex isOutcomeNotification
                (newEvents s (handleUpstream lc r now s (AudioTranscriptDone t))) = clientOpen s
       else session (handleUpstream lc r now s (AudioTranscriptDone t)) = session s
            \<and> newEvents s (handleUpstream lc r now s (AudioTranscriptDone t)) = []))"
proof (intro conjI impI)
  assume "salesMode s = ''ai_sells''
    \<and> classifierCalls (handleUpstream lc r now s (InputTranscriptionCompleted t)) \<noteq> classifierCalls s
    \<and> (analysis_outcome (completion_result r) = ''SALE_CONFIRMED''
        \<or> analysis_outcome (completion_result r) = ''SALE_DENIED'')"
  then have a: "salesMode s = ''ai_sells''"
    "classifierCalls (handleUpstream lc r now s (InputTranscriptionCompleted t)) \<noteq> classifierCalls s"
    "analysis_outcome (completion_result r) = ''SALE_CONFIRMED''
        \<or> analysis_outcome (completion_result r) = ''SALE_DENIED''"
    by blast+
  from a show "if (if isExitSignal lc t then 60 else 80) \<le> confidence (completion_result r)
       then session (handleUpstream lc r now s (InputTranscriptionCompleted t))
              = \<lparr>outcome = Some (if analysis_outcome (completion_result r) = ''SALE_CONFIRMED''
                                 then Sale_made else No_sale),
                 saleConfirmed = (analysis_outcome (completion_result r) = ''SALE_CONFIRMED''),
                 db_currentPhase = Completed, endedAt = Some now\<rparr>
            \<and> list_ex isOutcomeNotification
                (newEvents s (handleUpstream lc r now s (InputTranscriptionCompleted t)))
       else outcome (session (handleUpstream lc r now s (InputTranscriptionCompleted t)))
              = outcome (session s)
            \<and> endedAt (session (handleUpstream lc r now s (InputTranscriptionCompleted t)))
              = endedAt (session s)
            \<and> saleConfirmed (session (handleUpstream lc r now s (InputTranscriptionCompleted t)))
              = saleConfirmed (session s)
            \<and> (db_currentPhase (session (handleUpstream lc r now s (InputTranscriptionCompleted t)))
                 = Completed \<longrightarrow> db_currentPhase (session s) = Completed)
            \<and> \<not> list_ex isOutcomeNotification
                (newEvents s (handleUpstream lc r now s (InputTranscriptionCompleted t)))"
    by (rule ai_sells_gate)
next
  assume "salesMode s = ''user_sells''
    \<and> classifierCalls (handleUpstream lc r now s (AudioTranscriptDone t)) \<noteq> classifierCalls s
    \<and> (analysis_outcome (completion_result r) = ''SALE_CONFIRMED''
        \<or> analysis_outcome (completion_result r) = ''SALE_DENIED'')"
  then have b:
    "classifierCalls (handleUpstream lc r now s (AudioTranscriptDone t)) \<noteq> classifierCalls s"
    "analysis_outcome (completion_result r) = ''SALE_CONFIRMED''
        \<or> analysis_outcome (completion_result r) = ''SALE_DENIED''"
    by blast+
  from b show "if 80 \<le> confidence (completion_result r)
       then session (handleUpstream lc r now s (AudioTranscriptDone t))
              = \<lparr>outcome = Some (if analysis_outcome (completion_result r) = ''SALE_CONFIRMED''
                                 then Sale_made else No_sale),
                 saleConfirmed = (analysis_outcome (completion_result r) = ''SALE_CONFIRMED''),
                 db_currentPhase = Completed, endedAt = Some now\<rparr>
            \<and> list_ex isOutcomeNotification
                (newEvents s (handleUpstream lc r now s (AudioTranscriptDone t))) = clientOpen s
       else session (handleUpstream lc r now s (AudioTranscriptDone t)) = session s
            \<and> newEvents s (handleUpstream lc r now s (AudioTranscriptDone t)) = []"
    by (rule user_sells_gate)
qed

text \<open>
  The threshold at work: DENIED with confidence 70 commits \<open>No_sale\<close> on an utterance
  with an exit phrase and commits nothing on one without; in user-sells mode DENIED with
  confidence 85 commits, with confidence 70 it does not.
\<close>

theorem gate_commits_iff_threshold_witness:
  "isExitSignal asciiLowerCase ''bye''
   \<and> session (handleUpstream asciiLowerCase (verdict ''SALE_DENIED'' 70) 2 ai_discovery
        (InputTranscriptionCompleted ''bye''))
       = \<lparr>outcome = Some No_sale, saleConfirmed = False, db_currentPhase = Completed,
          endedAt = Some 2\<rparr>
   \<and> \<not> isExitSignal asciiLowerCase ''maybe later''
   \<and> outcome (session (handleUpstream asciiLowerCase (verdict ''SALE_DENIED'' 70) 2 ai_discovery
        (InputTranscriptionCompleted ''maybe later''))) = None
   \<and> db_currentPhase (session (handleUpstream asciiLowerCase (verdict ''SALE_DENIED'' 70) 2 ai_discovery
        (InputTranscriptionCompleted ''maybe later''))) \<noteq> Completed
   \<and> session (handleUpstream asciiLowerCase (verdict ''SALE_DENIED'' 85) 2 user_pitching
        (AudioTranscriptDone ''No thanks''))
       = \<lparr>outcome = Some No_sale, saleConfirmed = False, db_currentPhase = Completed,
          endedAt = Some 2\<rparr>
   \<and> session (handleUpstream asciiLowerCase (verdict ''SALE_DENIED'' 70) 2 user_pitching
        (AudioTranscriptDone ''No thanks'')) = session user_pitching"
proof -
  have m: "salesMode ai_discovery = ''ai_sells''" by code_simp
  have init: "outcome (session ai_discovery) = None"
    "db_currentPhase (session ai_discovery) \<noteq> Completed" by code_simp+
  have e1: "isExitSignal asciiLowerCase ''bye''" by code_simp
  have e2: "\<not> isExitSignal asciiLowerCase ''maybe later''" by code_simp
  have c1: "classifierCalls (handleUpstream asciiLowerCase (verdict ''SALE_DENIED'' 70) 2 ai_discovery
        (InputTranscriptionCompleted ''bye'')) \<noteq> classifierCalls ai_discovery" by code_simp
  have c2: "classifierCalls (handleUpstream asciiLowerCase (verdict ''SALE_DENIED'' 70) 2 ai_discovery
        (InputTranscriptionCompleted ''maybe later'')) \<noteq> classifierCalls ai_discovery" by code_simp
  have v70: "analysis_outcome (completion_result (verdict ''SALE_DENIED'' 70)) = ''SALE_DENIED''"
    "confidence (completion_result (verdict ''SALE_DENIED'' 70)) = 70" by code_simp+
  have v85: "analysis_outcome (completion_result (verdict ''SALE_DENIED'' 85)) = ''SALE_DENIED''"
    "confidence (completion_result (verdict ''SALE_DENIED'' 85)) = 85" by code_simp+
  have um: "salesMode user_pitching = ''user_sells''" "clientOpen user_pitching" by code_simp+
  have c3: "classifierCalls (handleUpstream asciiLowerCase (verdict ''SALE_DENIED'' 85) 2 user_pitching
        (AudioTranscriptDone ''No thanks'')) \<noteq> classifierCalls user_pitching" by code_simp
  have c4: "classifierCalls (handleUpstream asciiLowerCase (verdict ''SALE_DENIED'' 70) 2 user_pitching
        (AudioTranscriptDone ''No thanks'')) \<noteq> classifierCalls user_pitching" by code_simp
  have r1: "session (handleUpstream asciiLowerCase (verdict ''SALE_DENIED'' 70) 2 ai_discovery
        (InputTranscriptionCompleted ''bye''))
       = \<lparr>outcome = Some No_sale, saleConfirmed = False, db_currentPhase = Completed,
          endedAt = Some 2\<rparr>"
    using gate_commits_iff_threshold
            [of ai_discovery asciiLowerCase "verdict ''SALE_DENIED'' 70" 2 "''bye''", THEN conjunct1]
      m c1 v70 e1 by simp
  have r2: "outcome (session (handleUpstream asciiLowerCase (verdict ''SALE_DENIED'' 70) 2 ai_discovery
        (InputTranscriptionCompleted ''maybe later''))) = None
     \<and> db_currentPhase (session (handleUpstream asciiLowerCase (verdict ''SALE_DENIED'' 70) 2 ai_discovery
        (InputTranscriptionCompleted ''maybe later''))) \<noteq> Completed"
    using gate_commits_iff_threshold
            [of ai_discovery asciiLowerCase "verdict ''SALE_DENIED'' 70" 2 "''maybe later''", THEN conjunct1]
      m c2 v70 e2 init by auto
  have r3: "session (handleUpstream asciiLowerCase (verdict ''SALE_DENIED'' 85) 2 user_pitching
        (AudioTranscriptDone ''No thanks''))
       = \<lparr>outcome = Some No_sale, saleConfirmed = False, db_currentPhase = Completed,
          endedAt = Some 2\<rparr>"
    using gate_commits_iff_threshold
            [of user_pitching asciiLowerCase "verdict ''SALE_DENIED'' 85" 2 "''No thanks''", THEN conjunct2]
      um c3 v85 by simp
  have r4: "session (handleUpstream asciiLowerCase (verdict ''SALE_DENIED'' 70) 2 user_pitching
        (AudioTranscriptDone ''No thanks'')) = session user_pitching"
    using gate_commits_iff_threshold
            [of user_pitching asciiLowerCase "verdict ''SALE_DENIED'' 70" 2 "''No thanks''", THEN conjunct2]
      um c4 v70 by simp
  from e1 e2 r1 r2 r3 r4 show ?thesis by blast
qed


section \<open>What reaches the client after a commit\<close>

text \<open>
  C5, as stated, fails: after the sale has been committed and while the client socket is
  open, an audio delta and an assistant transcript delta from the upstream engine are
  forwarded to the client as before.
\<close>

theorem audio_forwarded_after_commit:
  "outcome (session ai_sold) = Some Sale_made
   \<and> clientOpen ai_sold
   \<and> newEvents ai_sold (handleUpstream asciiLowerCase undecided 3 ai_sold (AudioDelta ''pcm16''))
       = [Audio ''pcm16'']
   \<and> newEvents ai_sold (handleUpstream asciiLowerCase undecided 3 ai_sold (AudioTranscriptDelta ''Congratulations''))
       = [Assistant_transcript ''Congratulations'']"
  by code_simp

text \<open>
  C5, amended. Forwarding depends on the client socket, not on the outcome: for every
  session, whatever its outcome, an audio delta is forwarded exactly when the client
  socket is open and an assistant transcript delta exactly when the socket is open and
  no buffering window is open; once the client socket is not open (which is when an
  undecided session is marked abandoned) no sequence of later events delivers anything
  to the client.
\<close>

theorem closed_socket_delivers_nothing:
  "(\<not> clientOpen s \<longrightarrow> sent (run lc s evs) = sent s)
   \<and> newEvents s (handleUpstream lc r now s (AudioDelta d)) = (if clientOpen s then [Audio d] else [])
   \<and> newEvents s (handleUpstream lc r now s (AudioTranscriptDelta d))
       = (if \<not> isWaitingForUserTranscript s \<and> clientOpen s then [Assistant_transcript d] else [])"
proof (intro conjI impI)
  assume "\<not> clientOpen s"
  then show "sent (run lc s evs) = sent s" by (rule run_closed)
next
  show "newEvents s (handleUpstream lc r now s (AudioDelta d)) = (if clientOpen s then [Audio d] else [])"
    by (simp add: newEvents_def clientSend_def)
next
  show "newEvents s (handleUpstream lc r now s (AudioTranscriptDelta d))
       = (if \<not> isWaitingForUserTranscript s \<and> clientOpen s then [Assistant_transcript d] else [])"
    by (simp add: newEvents_def clientSend_def)
qed

theorem closed_socket_delivers_nothing_witness:
  "\<not> clientOpen user_abandoned
   \<and> outcome (session user_abandoned) = Some Abandoned
   \<and> sent (run asciiLowerCase user_abandoned
        [(verdict ''SALE_CONFIRMED'' 90, 3, Upstream (AudioTranscriptDone ''Okay, I'll take it'')),
         (undecided, 4, Upstream (AudioDelta ''pcm16'')),
         (undecided, 5, Upstream (AudioTranscriptDelta ''Thank you''))])
       = [User_transcript ''This pen never skips'']"
proof -
  have h: "\<not> clientOpen user_abandoned" by code_simp
  have o: "outcome (session user_abandoned) = Some Abandoned" by code_simp
  have s0: "sent user_abandoned = [User_transcript ''This pen never skips'']" by code_simp
  have "sent (run asciiLowerCase user_abandoned
        [(verdict ''SALE_CONFIRMED'' 90, 3, Upstream (AudioTranscriptDone ''Okay, I'll take it'')),
         (undecided, 4, Upstream (AudioDelta ''pcm16'')),
         (undecided, 5, Upstream (AudioTranscriptDelta ''Thank you''))]) = sent user_abandoned"
    using closed_socket_delivers_nothing
            [of user_abandoned asciiLowerCase _ undecided 0 "''''", THEN conjunct1] h
    by blast
  with h o s0 show ?thesis by simp
qed


section \<open>Buffered assistant fragments\<close>

text \<open>
  C6. With the client socket open: after a speech-start event, three assistant fragments
  that arrive before the user's transcript is finalized are not forwarded one by one
  (nothing is sent while they arrive); when the user's transcript is finalized, the
  client receives exactly one assistant transcript event, whose text is the three
  fragments concatenated in order, and the buffer is empty afterwards.
\<close>

theorem buffered_fragments_flushed_once:
  assumes "clientOpen s"
  shows "sent (handleUpstream lc r3 n3 (handleUpstream lc r2 n2 (handleUpstream lc r1 n1
            (handleUpstream lc r0 n0 s SpeechStarted) (AudioTranscriptDelta a))
            (AudioTranscriptDelta b)) (AudioTranscriptDelta c)) = sent s
       \<and> filter isAssistantTranscript (newEvents s
            (handleUpstream lc r4 n4 (handleUpstream lc r3 n3 (handleUpstream lc r2 n2 (handleUpstream lc r1 n1
            (handleUpstream lc r0 n0 s SpeechStarted) (AudioTranscriptDelta a))
            (AudioTranscriptDelta b)) (AudioTranscriptDelta c)) (InputTranscriptionCompleted t)))
           = [Assistant_transcript (a @ b @ c)]
       \<and> bufferedAssistantTranscript
            (handleUpstream lc r4 n4 (handleUpstream lc r3 n3 (handleUpstream lc r2 n2 (handleUpstream lc r1 n1
            (handleUpstream lc r0 n0 s SpeechStarted) (AudioTranscriptDelta a))
            (AudioTranscriptDelta b)) (AudioTranscriptDelta c)) (InputTranscriptionCompleted t)) = []"
proof -
  let ?s4 = "s\<lparr>isWaitingForUserTranscript := True, bufferedAssistantTranscript := [a, b, c]\<rparr>"
  have s4: "handleUpstream lc r3 n3 (handleUpstream lc r2 n2 (handleUpstream lc r1 n1
            (handleUpstream lc r0 n0 s SpeechStarted) (AudioTranscriptDelta a))
            (AudioTranscriptDelta b)) (AudioTranscriptDelta c) = ?s4"
    by simp
  have opn: "clientOpen ?s4" using assms by simp
  obtain ns where ns: "newEvents ?s4 (handleUpstream lc r4 n4 ?s4 (InputTranscriptionCompleted t))
               = User_transcript t # ns
                 @ (if bufferedAssistantTranscript ?s4 \<noteq> []
                    then [Assistant_transcript (concat (bufferedAssistantTranscript ?s4))] else [])"
      "filter isAssistantTranscript ns = []"
    using onUserTranscript_open_events [OF opn, of lc r4 n4 t] by blast
  have ne: "newEvents s (handleUpstream lc r4 n4 ?s4 (InputTranscriptionCompleted t))
          = newEvents ?s4 (handleUpstream lc r4 n4 ?s4 (InputTranscriptionCompleted t))"
    by (simp add: newEvents_def)
  have "filter isAssistantTranscript
          (newEvents s (handleUpstream lc r4 n4 ?s4 (InputTranscriptionCompleted t)))
          = [Assistant_transcript (a @ b @ c)]"
    unfolding ne ns(1) using ns(2) by simp
  moreover have "bufferedAssistantTranscript
                   (handleUpstream lc r4 n4 ?s4 (InputTranscriptionCompleted t)) = []"
    using opn by (rule onUserTranscript_buffer)
  ultimately show ?thesis unfolding s4 by simp
qed

theorem buffered_fragments_flushed_once_witness:
  "clientOpen ai_discovery
   \<and> filter isAssistantTranscript (newEvents ai_discovery
        (handleUpstream asciiLowerCase undecided 6 (handleUpstream asciiLowerCase undecided 5 (handleUpstream asciiLowerCase undecided 4
           (handleUpstream asciiLowerCase undecided 3 (handleUpstream asciiLowerCase undecided 2 ai_discovery SpeechStarted)
              (AudioTranscriptDelta ''A'')) (AudioTranscriptDelta ''B''))
           (AudioTranscriptDelta ''C'')) (InputTranscriptionCompleted ''I write a lot'')))
       = [Assistant_transcript ''ABC'']
   \<and> bufferedAssistantTranscript
        (handleUpstream asciiLowerCase undecided 6 (handleUpstream asciiLowerCase undecided 5 (handleUpstream asciiLowerCase undecided 4
           (handleUpstream asciiLowerCase undecided 3 (handleUpstream asciiLowerCase undecided 2 ai_discovery SpeechStarted)
              (AudioTranscriptDelta ''A'')) (AudioTranscriptDelta ''B''))
           (AudioTranscriptDelta ''C'')) (InputTranscriptionCompleted ''I write a lot'')) = []"
proof -
  have h: "clientOpen ai_discovery" by code_simp
  from buffered_fragments_flushed_once
         [OF h, of asciiLowerCase undecided 5 undecided 4 undecided 3 undecided 2 "''A''" "''B''" "''C''"
            undecided 6 "''I write a lot''"] h
  show ?thesis by simp
qed


section \<open>The give-up short circuit\<close>

text \<open>
  C7, as stated, fails: in AI-sells mode a user utterance that matches a give-up phrase
  while the phase is not \<open>Completed\<close> calls the classifier, and with an undecided answer
  nothing is committed and no notification is sent.
\<close>

theorem ai_sells_farewell_calls_classifier:
  "salesMode ai_discovery = ''ai_sells''
   \<and> isGivingUp asciiLowerCase ''goodbye''
   \<and> currentPhase ai_discovery \<noteq> Completed
   \<and> db_currentPhase (session ai_discovery) \<noteq> Completed
   \<and> classifierCalls (handleUpstream asciiLowerCase undecided 2 ai_discovery
        (InputTranscriptionCompleted ''goodbye'')) \<noteq> classifierCalls ai_discovery
   \<and> outcome (session (handleUpstream asciiLowerCase undecided 2 ai_discovery
        (InputTranscriptionCompleted ''goodbye''))) = None
   \<and> newEvents ai_discovery (handleUpstream asciiLowerCase undecided 2 ai_discovery
        (InputTranscriptionCompleted ''goodbye'')) = [User_transcript ''goodbye'']"
  by code_simp

text \<open>
  C7, amended. In user-sells mode (the AI is the customer), a finalized user utterance
  that matches a give-up phrase while the stored phase is not \<open>Completed\<close> commits
  \<open>No_sale\<close> at once, without a classifier call, and the client is notified with a
  \<open>sale_denied\<close> event (after the user's transcript, before any buffered assistant
  text).
\<close>

theorem user_sells_give_up_commits_no_sale:
  assumes "salesMode s = ''user_sells''"
    and "clientOpen s"
    and "isGivingUp lc t"
    and "db_currentPhase (session s) \<noteq> Completed"
  shows "session (handleUpstream lc r now s (InputTranscriptionCompleted t))
           = \<lparr>outcome = Some No_sale, saleConfirmed = False, db_currentPhase = Completed,
              endedAt = Some now\<rparr>
       \<and> classifierCalls (handleUpstream lc r now s (InputTranscriptionCompleted t)) = classifierCalls s
       \<and> newEvents s (handleUpstream lc r now s (InputTranscriptionCompleted t))
           = User_transcript t
             # Sale_denied_event ''SESSION ENDED''
                 ''You ended the session without making a sale. Keep practicing!''
             # (if bufferedAssistantTranscript s = [] then []
                else [Assistant_transcript (concat (bufferedAssistantTranscript s))])"
  using assms
  by (simp add: onUserTranscript_def userSellsTurn_def flushBuffered_def prim_defs
        newEvents_def Let_def)

theorem user_sells_give_up_commits_no_sale_witness:
  "salesMode user_pitching = ''user_sells''
   \<and> clientOpen user_pitching
   \<and> isGivingUp asciiLowerCase ''I give up''
   \<and> db_currentPhase (session user_pitching) \<noteq> Completed
   \<and> session (handleUpstream asciiLowerCase (verdict ''SALE_CONFIRMED'' 99) 2 user_pitching
        (InputTranscriptionCompleted ''I give up''))
       = \<lparr>outcome = Some No_sale, saleConfirmed = False, db_currentPhase = Completed,
          endedAt = Some 2\<rparr>
   \<and> classifierCalls (handleUpstream asciiLowerCase (verdict ''SALE_CONFIRMED'' 99) 2 user_pitching
        (InputTranscriptionCompleted ''I give up'')) = classifierCalls user_pitching"
proof -
  have h1: "salesMode user_pitching = ''user_sells''" by code_simp
  have h2: "clientOpen user_pitching" by code_simp
  have h3: "isGivingUp asciiLowerCase ''I give up''" by code_simp
  have h4: "db_currentPhase (session user_pitching) \<noteq> Completed" by code_simp
  from user_sells_give_up_commits_no_sale [OF h1 h2 h3 h4] h1 h2 h3 h4
  show ?thesis by blast
qed


section \<open>The transcript window of a classification call\<close>

text \<open>
  C8. The claim: the window passed to the classifier holds the most recent messages of
  the session. The handler reads the first fifteen messages in ascending order of
  creation and the analyzer keeps the last ten of those. Evaluated on a session with
  sixteen stored messages: when the user answers the closing question, the window is
  messages six to fifteen; neither the closing question nor the answer being judged
  is in it.
\<close>

theorem classifier_window_misses_latest_messages:
  "length (messages ai_long) = 16
   \<and> last (classifierCalls (handleUpstream asciiLowerCase (verdict ''SALE_CONFIRMED'' 95) 17 ai_long
        (InputTranscriptionCompleted ''Yes, complete the purchase'')))
     = Seller_analysis
         [(''assistant'', ''a3''), (''user'', ''u4''), (''assistant'', ''a4''), (''user'', ''u5''),
          (''assistant'', ''a5''), (''user'', ''u6''), (''assistant'', ''a6''), (''user'', ''u7''),
          (''assistant'', ''a7''), (''user'', ''u8'')]"
  by code_simp


section \<open>Classification failure\<close>

text \<open>
  C9. If the classification call fails or its output cannot be parsed, both detection
  functions return the outcome UNDECIDED with confidence 0. In the handlers that call
  them the failure sends no error event to the client, leaves the client socket as it
  was, and ends no session: a finished assistant transcript leaves the session row
  unchanged, and in AI-sells mode a finalized user transcript leaves the outcome and the
  end time unchanged.
\<close>

theorem classification_failure_is_undecided:
  assumes "r = CallFailed \<or> r = Unparseable"
  shows "analysis_outcome (snd (detectSaleOutcome msgs r)) = ''UNDECIDED''
       \<and> confidence (snd (detectSaleOutcome msgs r)) = 0
       \<and> analysis_outcome (snd (detectUserSaleOutcome msgs d r)) = ''UNDECIDED''
       \<and> confidence (snd (detectUserSaleOutcome msgs d r)) = 0
       \<and> \<not> list_ex isErrorEvent (newEvents s (handleUpstream lc r now s (InputTranscriptionCompleted t)))
       \<and> newEvents s (handleUpstream lc r now s (AudioTranscriptDone t)) = []
       \<and> clientOpen (handleUpstream lc r now s (InputTranscriptionCompleted t)) = clientOpen s
       \<and> clientOpen (handleUpstream lc r now s (AudioTranscriptDone t)) = clientOpen s
       \<and> session (handleUpstream lc r now s (AudioTranscriptDone t)) = session s
       \<and> (salesMode s = ''ai_sells'' \<longrightarrow>
            outcome (session (handleUpstream lc r now s (InputTranscriptionCompleted t)))
              = outcome (session s)
            \<and> endedAt (session (handleUpstream lc r now s (InputTranscriptionCompleted t)))
              = endedAt (session s))"
proof -
  have res: "analysis_outcome (completion_result r) = ''UNDECIDED''"
    "confidence (completion_result r) = 0"
    by (simp_all add: completion_result_failure [OF assms])
  have d1: "analysis_outcome (snd (detectSaleOutcome msgs r)) = ''UNDECIDED''"
    "confidence (snd (detectSaleOutcome msgs r)) = 0"
    using res by (simp_all add: detectSaleOutcome_def analyzeWithAI_def)
  have d2: "analysis_outcome (snd (detectUserSaleOutcome msgs d r)) = ''UNDECIDED''"
    "confidence (snd (detectUserSaleOutcome msgs d r)) = 0"
    using res by (simp_all add: detectUserSaleOutcome_def)
  have e2: "newEvents s (handleUpstream lc r now s (AudioTranscriptDone t)) = []"
    using onTranscriptDone_failure(1) [OF assms, of lc now s t] by (simp add: newEvents_def)
  note e1 = onUserTranscript_no_error [of s lc r now t]
  note o1 = onUserTranscript_clientOpen [of lc r now s t]
  note o2 = onTranscriptDone_failure(3) [OF assms, of lc now s t]
  note s2 = onTranscriptDone_failure(2) [OF assms, of lc now s t]
  note ai = onUserTranscript_ai_sells_failure [OF assms, of s lc now t]
  from d1 d2 e1 e2 o1 o2 s2 ai show ?thesis by blast
qed

theorem classification_failure_is_undecided_witness:
  "analysis_outcome (snd (detectSaleOutcome [(''user'', ''bye'')] CallFailed)) = ''UNDECIDED''
   \<and> confidence (snd (detectSaleOutcome [(''user'', ''bye'')] CallFailed)) = 0
   \<and> salesMode ai_discovery = ''ai_sells''
   \<and> outcome (session (handleUpstream asciiLowerCase CallFailed 2 ai_discovery
        (InputTranscriptionCompleted ''bye''))) = None
   \<and> endedAt (session (handleUpstream asciiLowerCase CallFailed 2 ai_discovery
        (InputTranscriptionCompleted ''bye''))) = None
   \<and> clientOpen (handleUpstream asciiLowerCase CallFailed 2 ai_discovery (InputTranscriptionCompleted ''bye''))"
proof -
  have h: "CallFailed = CallFailed \<or> CallFailed = Unparseable" by simp
  have m: "salesMode ai_discovery = ''ai_sells''" by code_simp
  have i: "outcome (session ai_discovery) = None" "endedAt (session ai_discovery) = None"
    "clientOpen ai_discovery" by code_simp+
  from classification_failure_is_undecided
         [OF h, of "[(''user'', ''bye'')]" "''medium''" ai_discovery asciiLowerCase 2 "''bye''"] m i
  show ?thesis by simp
qed


section \<open>Closed socket on a finalized user transcript\<close>

text \<open>
  C10. If the client socket is not open when a finalized user transcript arrives, the
  whole user turn is skipped: no message is stored, the phase stays, the classifier is
  not called, nothing is sent and the buffered fragments stay in the buffer; only the
  flag of the buffering window is reset.
\<close>

theorem closed_socket_skips_user_turn:
  assumes "\<not> clientOpen s"
  shows "handleUpstream lc r now s (InputTranscriptionCompleted t)
           = s\<lparr>isWaitingForUserTranscript := False\<rparr>"
  using assms by (simp add: onUserTranscript_def)

theorem closed_socket_skips_user_turn_witness:
  "\<not> clientOpen ai_closed_buffering
   \<and> isWaitingForUserTranscript ai_closed_buffering
   \<and> handleUpstream asciiLowerCase (verdict ''SALE_DENIED'' 95) 6 ai_closed_buffering
        (InputTranscriptionCompleted ''goodbye'')
       = ai_closed_buffering\<lparr>isWaitingForUserTranscript := False\<rparr>
   \<and> bufferedAssistantTranscript (handleUpstream asciiLowerCase (verdict ''SALE_DENIED'' 95) 6 ai_closed_buffering
        (InputTranscriptionCompleted ''goodbye'')) = [''Great '', ''question'']"
proof -
  have h: "\<not> clientOpen ai_closed_buffering" by code_simp
  have w: "isWaitingForUserTranscript ai_closed_buffering" by code_simp
  have b: "bufferedAssistantTranscript ai_closed_buffering = [''Great '', ''question'']"
    by code_simp
  from closed_socket_skips_user_turn
         [OF h, of asciiLowerCase "verdict ''SALE_DENIED'' 95" 6 "''goodbye''"] h w b
  show ?thesis by simp
qed

end
